theory Spec2Isabelle
  imports Main
begin

section \<open>JavaScript values as the editor handles them\<close>

text \<open>
  The editor keeps the policy and every condition as plain JavaScript objects and tells
  the shapes apart by asking which properties an object has. The model therefore works on
  JavaScript values: an object is the list of its own properties in enumeration order,
  an array the list of its elements. Numbers are only copied and tested for truthiness
  by the handlers modelled here; they are integers in the model. Property names that are
  canonical array indices (which an engine enumerates first) do not occur in the
  documents the editor builds and are not reordered by the model.
\<close>

datatype jsval =
    JUndefined
  | JNull
  | JBool bool
  | JNum int
  | JStr string
  | JArr "jsval list"
  | JObj "(string \<times> jsval) list"

datatype error = TypeError | SyntaxError

text \<open>Sequencing of computations that may throw.\<close>

definition bindE :: "error + 'a \<Rightarrow> ('a \<Rightarrow> error + 'b) \<Rightarrow> error + 'b" where
  "bindE m f = (case m of Inl e \<Rightarrow> Inl e | Inr x \<Rightarrow> f x)"

text \<open>Truthiness, as \<open>||\<close>, \<open>!\<close> and \<open>? :\<close> test it.\<close>

fun truthy :: "jsval \<Rightarrow> bool" where
  "truthy JUndefined = False"
| "truthy JNull = False"
| "truthy (JBool b) = b"
| "truthy (JNum n) = (n \<noteq> 0)"
| "truthy (JStr s) = (s \<noteq> [])"
| "truthy (JArr xs) = True"
| "truthy (JObj kvs) = True"

definition js_or :: "jsval \<Rightarrow> jsval \<Rightarrow> jsval" where
  "js_or a b = (if truthy a then a else b)"

text \<open>Decimal digits of an array index, for the property names of arrays and strings.\<close>

function index_key :: "nat \<Rightarrow> string" where
  "index_key n =
     (if n < 10 then [char_of (48 + n)]
      else index_key (n div 10) @ [char_of (48 + n mod 10)])"
  by pat_completeness auto
termination
  by (relation "measure id") auto

declare index_key.simps [simp del]

text \<open>
  The own enumerable properties, as \<open>{...v}\<close> copies and \<open>Object.keys\<close> lists
  them: none for \<open>undefined\<close>, \<open>null\<close>, numbers and booleans, the indexed elements
  for arrays and strings. Inherited properties and \<open>length\<close> are not modelled: the
  handlers ask for none of them.
\<close>

fun own_props :: "jsval \<Rightarrow> (string \<times> jsval) list" where
  "own_props (JObj kvs) = kvs"
| "own_props (JArr xs) = zip (map index_key [0..<length xs]) xs"
| "own_props (JStr s) = zip (map index_key [0..<length s]) (map (\<lambda>c. JStr [c]) s)"
| "own_props v = []"

text \<open>The value of an own property, \<open>undefined\<close> when there is none of that name.\<close>

fun lookup :: "(string \<times> jsval) list \<Rightarrow> string \<Rightarrow> jsval" where
  "lookup [] k = JUndefined"
| "lookup ((k', v) # kvs) k = (if k' = k then v else lookup kvs k)"

text \<open>\<open>k in v\<close>: a TypeError unless \<open>v\<close> is an object or an array.\<close>

fun has_key :: "string \<Rightarrow> jsval \<Rightarrow> error + bool" where
  "has_key k (JObj kvs) = Inr (k \<in> set (map fst kvs))"
| "has_key k (JArr xs) = Inr (k \<in> set (map fst (own_props (JArr xs))))"
| "has_key k v = Inl TypeError"

text \<open>\<open>v.k\<close> and \<open>v[k]\<close>: a TypeError on \<open>undefined\<close> and \<open>null\<close>.\<close>

fun get_prop :: "jsval \<Rightarrow> string \<Rightarrow> error + jsval" where
  "get_prop JUndefined k = Inl TypeError"
| "get_prop JNull k = Inl TypeError"
| "get_prop v k = Inr (lookup (own_props v) k)"

text \<open>
  Writing a property in an object literal or by a spread: an existing property keeps its
  place and takes the new value, a new one goes to the end.
\<close>

fun set_prop :: "string \<Rightarrow> jsval \<Rightarrow> (string \<times> jsval) list \<Rightarrow> (string \<times> jsval) list" where
  "set_prop k v [] = [(k, v)]"
| "set_prop k v ((k', v') # kvs) =
     (if k' = k then (k, v) # kvs else (k', v') # set_prop k v kvs)"

text \<open>\<open>{...v, k: x}\<close>.\<close>

definition obj_with :: "jsval \<Rightarrow> string \<Rightarrow> jsval \<Rightarrow> jsval" where
  "obj_with v k x = JObj (set_prop k x (own_props v))"

text \<open>\<open>delete o[k]\<close> and the rest of a destructuring that takes \<open>k\<close> out.\<close>

definition del_prop :: "string \<Rightarrow> (string \<times> jsval) list \<Rightarrow> (string \<times> jsval) list" where
  "del_prop k kvs = filter (\<lambda>p. fst p \<noteq> k) kvs"

text \<open>\<open>Object.keys(v)\<close>: a TypeError on \<open>undefined\<close> and \<open>null\<close>.\<close>

fun object_keys :: "jsval \<Rightarrow> error + string list" where
  "object_keys JUndefined = Inl TypeError"
| "object_keys JNull = Inl TypeError"
| "object_keys v = Inr (map fst (own_props v))"

text \<open>
  \<open>keys.find(key => key !== skip) || dflt\<close>: the first key other than \<open>skip\<close>; the
  default when there is none or when the key found is the empty string, which is falsy.
\<close>

definition first_key_or :: "string \<Rightarrow> string \<Rightarrow> string list \<Rightarrow> string" where
  "first_key_or skip dflt ks =
     (case List.find (\<lambda>k. k \<noteq> skip) ks of
        None \<Rightarrow> dflt
      | Some k \<Rightarrow> (if k = [] then dflt else k))"

section \<open>Condition groups: \<open>useConditionGroup\<close>\<close>

text \<open>
  The hook is given the children of a group, the group's negation flag and the callback
  \<open>onUpdate\<close>. A handler is modelled by what it passes to \<open>onUpdate\<close>, given the
  values its hook holds; how the components render is not part of the model.
\<close>

definition emptySimple :: jsval where
  "emptySimple = JObj [(''field'', JStr ''''), (''equals'', JStr '''')]"

definition handleAddCondition :: "jsval list \<Rightarrow> jsval list" where
  "handleAddCondition conditions = emptySimple # conditions"

definition handleAddNestedGroup :: "jsval list \<Rightarrow> bool \<Rightarrow> jsval list" where
  "handleAddNestedGroup conditions isNot =
     (let newGroup = JObj [(''anyOf'', JArr [])]
      in conditions @ [if isNot then JObj [(''not'', newGroup)] else newGroup])"

definition handleAddCountCondition :: "jsval list \<Rightarrow> jsval list" where
  "handleAddCountCondition conditions =
     JObj [(''count'', JObj [(''field'', JStr ''''), (''where'', JObj [(''anyOf'', JArr [])])]),
           (''greater'', JNum 0)] # conditions"

text \<open>
  \<open>conditions.filter((_, i) => i !== idx)\<close>: the positions are 0, 1, ...; the index
  handed in is any number.
\<close>

fun filter_index :: "int \<Rightarrow> int \<Rightarrow> 'a list \<Rightarrow> 'a list" where
  "filter_index i idx [] = []"
| "filter_index i idx (x # xs) =
     (if i \<noteq> idx then x # filter_index (i + 1) idx xs else filter_index (i + 1) idx xs)"

definition handleRemoveCondition :: "jsval list \<Rightarrow> int \<Rightarrow> jsval list" where
  "handleRemoveCondition conditions idx =
     (if length conditions = 1 then [emptySimple]
      else filter_index 0 idx conditions)"

subsection \<open>The type guards of the condition group\<close>

text \<open>
  \<open>isSimpleCondition\<close>, \<open>isCountCondition\<close> and \<open>isNestedCondition\<close>, with the
  short-circuit evaluation of \<open>&&\<close> and \<open>||\<close>: a right operand is evaluated, and may
  throw, only when the left one does not decide.
\<close>

definition isSimpleCondition :: "jsval \<Rightarrow> error + bool" where
  "isSimpleCondition condition =
     bindE (has_key ''field'' condition) (\<lambda>hasField.
     bindE (if hasField then bindE (has_key ''count'' condition) (\<lambda>hasCount. Inr (\<not> hasCount))
            else Inr False) (\<lambda>plain.
     if plain then Inr True
     else bindE (has_key ''not'' condition) (\<lambda>hasNot.
          if hasNot then bindE (get_prop condition ''not'') (\<lambda>inner. has_key ''field'' inner)
          else Inr False)))"

definition isCountCondition :: "jsval \<Rightarrow> error + bool" where
  "isCountCondition condition =
     bindE (has_key ''count'' condition) (\<lambda>hasCount.
     if hasCount then Inr True
     else bindE (has_key ''not'' condition) (\<lambda>hasNot.
          if hasNot then bindE (get_prop condition ''not'') (\<lambda>inner. has_key ''count'' inner)
          else Inr False))"

definition isNestedCondition :: "jsval \<Rightarrow> error + bool" where
  "isNestedCondition condition =
     bindE (has_key ''not'' condition) (\<lambda>hasNot.
     if hasNot then
       bindE (get_prop condition ''not'') (\<lambda>notCondition.
       bindE (has_key ''allOf'' notCondition) (\<lambda>hasAllOf.
       if hasAllOf then Inr True else has_key ''anyOf'' notCondition))
     else
       bindE (has_key ''allOf'' condition) (\<lambda>hasAllOf.
       bindE (if hasAllOf then Inr True else has_key ''anyOf'' condition) (\<lambda>isGroup.
       if isGroup then bindE (has_key ''count'' condition) (\<lambda>hasCount. Inr (\<not> hasCount))
       else Inr False)))"

text \<open>\<open>conditions[idx]\<close>: \<open>undefined\<close> past the end.\<close>

definition element_at :: "jsval list \<Rightarrow> nat \<Rightarrow> jsval" where
  "element_at xs i = (if i < length xs then xs ! i else JUndefined)"

text \<open>
  \<open>handleToggleGroupType(idx)\<close> of the group hook. The result is \<open>Inl\<close> an error when the
  handler throws, \<open>Inr None\<close> when it returns without calling \<open>onUpdate\<close>, and
  \<open>Inr (Some cs)\<close> when it calls \<open>onUpdate(cs)\<close>. The guard throws on an index past the
  end, so the assignment \<open>newConditions[idx] = ...\<close> is reached only with \<open>idx\<close> in range.
\<close>

definition handleToggleGroupType :: "jsval list \<Rightarrow> nat \<Rightarrow> error + jsval list option" where
  "handleToggleGroupType conditions idx =
     (let condition = element_at conditions idx in
      bindE (isNestedCondition condition) (\<lambda>nested.
      if \<not> nested then Inr None
      else
        bindE (has_key ''not'' condition) (\<lambda>isConditionNot.
        bindE (if isConditionNot then get_prop condition ''not'' else Inr condition) (\<lambda>groupCondition.
        bindE (get_prop groupCondition ''allOf'') (\<lambda>allOf.
        bindE (if truthy allOf then Inr allOf
               else bindE (get_prop groupCondition ''anyOf'') (\<lambda>anyOf. Inr (js_or anyOf (JArr []))))
          (\<lambda>currentConditions.
        let newType = (if truthy allOf then ''anyOf'' else ''allOf'');
            newGroup = JObj [(newType, currentConditions)]
        in Inr (Some (conditions[idx := (if isConditionNot then JObj [(''not'', newGroup)]
                                         else newGroup)]))))))))"

section \<open>Simple conditions: \<open>useCondition\<close>\<close>

text \<open>
  What the hook computes when it renders: whether the condition is wrapped in \<open>not\<close>,
  the simple condition inside, and its operator, the first property name other than
  \<open>field\<close> (\<open>equals\<close> when there is none).
\<close>

definition useCondition :: "jsval \<Rightarrow> error + (bool \<times> jsval \<times> string)" where
  "useCondition condition =
     bindE (has_key ''not'' condition) (\<lambda>isNot.
     bindE (if isNot then get_prop condition ''not'' else Inr condition) (\<lambda>simpleCondition.
     bindE (object_keys simpleCondition) (\<lambda>ks.
     Inr (isNot, simpleCondition, first_key_or ''field'' ''equals'' ks))))"

text \<open>The handlers give the condition they pass to \<open>onUpdate\<close>.\<close>

definition wrap_not :: "bool \<Rightarrow> jsval \<Rightarrow> jsval" where
  "wrap_not isNot c = (if isNot then JObj [(''not'', c)] else c)"

definition handleNotToggle :: "bool \<Rightarrow> jsval \<Rightarrow> error + jsval" where
  "handleNotToggle checked condition =
     bindE (useCondition condition) (\<lambda>(isNot, simpleCondition, operator).
     Inr (if checked then JObj [(''not'', simpleCondition)] else simpleCondition))"

definition handleOperatorChange :: "string \<Rightarrow> jsval \<Rightarrow> error + jsval" where
  "handleOperatorChange newOperator condition =
     bindE (useCondition condition) (\<lambda>(isNot, simpleCondition, operator).
     bindE (get_prop simpleCondition operator) (\<lambda>oldValue.
     bindE (get_prop simpleCondition ''field'') (\<lambda>field.
     let rest = del_prop operator (own_props simpleCondition);
         newCondition = JObj (set_prop newOperator oldValue (set_prop ''field'' field rest))
     in Inr (wrap_not isNot newCondition))))"

text \<open>
  \<open>handleValueChange\<close> calls \<open>JSON.parse\<close> of the runtime, which the model takes as the
  parameter \<open>parse\<close>; \<open>Array.isArray\<close> holds of the arrays only.
\<close>

definition processValue :: "(string \<Rightarrow> error + jsval) \<Rightarrow> string \<Rightarrow> string \<Rightarrow> jsval" where
  "processValue parse operator newValue =
     (if operator = ''in'' \<or> operator = ''notIn'' then
        (case parse newValue of
           Inr (JArr xs) \<Rightarrow> JArr xs
         | Inr other \<Rightarrow> JStr newValue
         | Inl e \<Rightarrow> JStr newValue)
      else JStr newValue)"

definition handleValueChange :: "(string \<Rightarrow> error + jsval) \<Rightarrow> string \<Rightarrow> jsval \<Rightarrow> error + jsval" where
  "handleValueChange parse newValue condition =
     bindE (useCondition condition) (\<lambda>(isNot, simpleCondition, operator).
     let processedValue = processValue parse operator newValue;
         newCondition = obj_with simpleCondition operator processedValue
     in Inr (wrap_not isNot newCondition))"

section \<open>Count conditions: \<open>useCountCondition\<close>\<close>

definition getCurrentOperator :: "jsval \<Rightarrow> error + string" where
  "getCurrentOperator condition =
     bindE (has_key ''not'' condition) (\<lambda>isCountNot.
     bindE (if isCountNot then get_prop condition ''not'' else Inr condition) (\<lambda>c.
     bindE (object_keys c) (\<lambda>ks. Inr (first_key_or ''count'' ''greater'' ks))))"

definition getCurrentValue :: "jsval \<Rightarrow> error + jsval" where
  "getCurrentValue condition =
     bindE (getCurrentOperator condition) (\<lambda>operator.
     bindE (has_key ''not'' condition) (\<lambda>isCountNot.
     bindE (if isCountNot then get_prop condition ''not'' else Inr condition) (\<lambda>c.
     get_prop c operator)))"

text \<open>
  \<open>handleToggleCountNot\<close>: a negated count condition is rebuilt from its count body and
  its comparison without the wrapper, one that is not negated is rebuilt inside \<open>not\<close>.
\<close>

definition handleToggleCountNot :: "jsval \<Rightarrow> error + jsval" where
  "handleToggleCountNot condition =
     bindE (getCurrentOperator condition) (\<lambda>operator.
     bindE (getCurrentValue condition) (\<lambda>currentValue.
     bindE (has_key ''not'' condition) (\<lambda>isCountNot.
     if isCountNot then
       bindE (get_prop condition ''not'') (\<lambda>inner.
       bindE (get_prop inner ''count'') (\<lambda>count.
       bindE (get_prop inner operator) (\<lambda>v.
       Inr (JObj (set_prop operator v [(''count'', count)])))))
     else
       bindE (get_prop condition ''count'') (\<lambda>count.
       Inr (JObj [(''not'', JObj (set_prop operator currentValue [(''count'', count)]))])))))"

section \<open>One child of a group: \<open>ConditionItem\<close>\<close>

text \<open>
  The item of a nested group hands its group the callback \<open>onToggleNot\<close>, which rebuilds
  the group from its type and children and wraps or unwraps it.
\<close>

definition nestedToggleNot :: "jsval \<Rightarrow> error + jsval" where
  "nestedToggleNot condition =
     bindE (has_key ''not'' condition) (\<lambda>isNot.
     bindE (if isNot then get_prop condition ''not'' else Inr condition) (\<lambda>groupCondition.
     bindE (has_key ''allOf'' groupCondition) (\<lambda>hasAllOf.
     let groupType = (if hasAllOf then ''allOf'' else ''anyOf'') in
     bindE (get_prop groupCondition groupType) (\<lambda>cs.
     let conditions = js_or cs (JArr []);
         newGroup = JObj [(groupType, conditions)]
     in Inr (if isNot then newGroup else JObj [(''not'', newGroup)])))))"

text \<open>
  The item renders the editor of a simple condition, else that of a count condition,
  else a nested group, else nothing. Each of the three shows a NOT toggle; the checkbox of
  the simple editor is controlled by \<open>isNot\<close> and reports the flipped state when
  clicked. \<open>toggleNegation\<close> is what a click on that toggle passes to the item's
  \<open>onUpdate\<close>; \<open>None\<close> when no toggle is rendered.
\<close>

definition toggleNegation :: "jsval \<Rightarrow> error + jsval option" where
  "toggleNegation condition =
     bindE (isSimpleCondition condition) (\<lambda>simple.
     if simple then
       bindE (useCondition condition) (\<lambda>(isNot, simpleCondition, operator).
       bindE (handleNotToggle (\<not> isNot) condition) (\<lambda>c. Inr (Some c)))
     else
       bindE (isCountCondition condition) (\<lambda>count.
       if count then bindE (handleToggleCountNot condition) (\<lambda>c. Inr (Some c))
       else
         bindE (isNestedCondition condition) (\<lambda>nested.
         if nested then bindE (nestedToggleNot condition) (\<lambda>c. Inr (Some c))
         else Inr None)))"

text \<open>Two clicks in a row, the second on what the first produced.\<close>

definition toggleNegationTwice :: "jsval \<Rightarrow> error + jsval option" where
  "toggleNegationTwice condition =
     bindE (toggleNegation condition) (\<lambda>r.
     case r of None \<Rightarrow> Inr None | Some c \<Rightarrow> toggleNegation c)"

section \<open>The policy editor's state: \<open>usePolicyEditorState\<close>\<close>

record editor_state =
  policy :: jsval
  selectedEffect :: string

text \<open>The text \<open>[parameters('effect')]\<close>, with its two apostrophes (character 39).\<close>

definition effectRef :: jsval where
  "effectRef = JStr (''[parameters('' @ [CHR 39] @ ''effect'' @ [CHR 39] @ '')]'')"

definition initialPolicyTemplate :: jsval where
  "initialPolicyTemplate =
     JObj [(''properties'', JObj [
        (''displayName'', JStr []),
        (''description'', JStr []),
        (''policyType'', JStr ''Custom''),
        (''mode'', JStr ''All''),
        (''metadata'', JObj [
           (''version'', JStr ''1.0.0''),
           (''category'', JStr []),
           (''preview'', JBool False)]),
        (''version'', JStr ''1.0.0''),
        (''parameters'', JObj [
           (''effect'', JObj [
              (''type'', JStr ''String''),
              (''metadata'', JObj [
                 (''displayName'', JStr ''Effect''),
                 (''description'', JStr
                    ''The effect determines what happens when the policy rule is evaluated to match'')]),
              (''allowedValues'', JArr [JStr ''Audit'', JStr ''Deny'', JStr ''Disabled'']),
              (''defaultValue'', JStr ''Audit'')])]),
        (''policyRule'', JObj [
           (''if'', JObj [(''allOf'', JArr [])]),
           (''then'', JObj [(''effect'', effectRef)])])])]"

definition initial_state :: editor_state where
  "initial_state = \<lparr>policy = initialPolicyTemplate, selectedEffect = ''audit''\<rparr>"












text \<open>
  \<open>handleEditorChange\<close>: the text of the preview pane, \<open>undefined\<close> when there is none.
  \<open>JSON.parse\<close> belongs to the runtime and is the parameter \<open>parse\<close>. A falsy text and a
  text that does not parse leave the state as it is; the handler never throws.
\<close>

definition handleEditorChange ::
  "(string \<Rightarrow> error + jsval) \<Rightarrow> string option \<Rightarrow> editor_state \<Rightarrow> editor_state" where
  "handleEditorChange parse value st =
     (case value of
        None \<Rightarrow> st
      | Some text \<Rightarrow>
          if text = [] then st
          else (case parse text of
                  Inr updatedPolicy \<Rightarrow> st\<lparr>policy := updatedPolicy\<rparr>
                | Inl e \<Rightarrow> st))"

text \<open>The root of the condition tree, \<open>policy.properties.policyRule.if\<close>, and what is read from it.\<close>

definition rootIf :: "jsval \<Rightarrow> error + jsval" where
  "rootIf p =
     bindE (get_prop p ''properties'') (\<lambda>properties.
     bindE (get_prop properties ''policyRule'') (\<lambda>policyRule.
     get_prop policyRule ''if''))"

definition isRootNot :: "jsval \<Rightarrow> error + bool" where
  "isRootNot p = bindE (rootIf p) (\<lambda>c. has_key ''not'' c)"

definition rootGroup :: "jsval \<Rightarrow> error + jsval" where
  "rootGroup p =
     bindE (isRootNot p) (\<lambda>isNot.
     bindE (rootIf p) (\<lambda>c.
     if isNot then get_prop c ''not'' else Inr c))"

definition getCurrentGroupType :: "jsval \<Rightarrow> error + string" where
  "getCurrentGroupType p =
     bindE (rootGroup p) (\<lambda>ifCondition.
     bindE (has_key ''allOf'' ifCondition) (\<lambda>hasAllOf.
     Inr (if hasAllOf then ''allOf'' else ''anyOf'')))"

definition getCurrentConditions :: "jsval \<Rightarrow> error + jsval" where
  "getCurrentConditions p =
     bindE (getCurrentGroupType p) (\<lambda>type.
     bindE (rootGroup p) (\<lambda>ifCondition.
     bindE (get_prop ifCondition type) (\<lambda>cs.
     Inr (js_or cs (JArr [])))))"

text \<open>\<open>{...prev, properties: {...prev.properties, policyRule: {...policyRule, if: newIf}}}\<close>.\<close>

definition setRootIf :: "jsval \<Rightarrow> jsval \<Rightarrow> error + jsval" where
  "setRootIf newIfCondition prev =
     bindE (get_prop prev ''properties'') (\<lambda>properties.
     bindE (get_prop properties ''policyRule'') (\<lambda>policyRule.
     Inr (obj_with prev ''properties''
            (obj_with properties ''policyRule'' (obj_with policyRule ''if'' newIfCondition)))))"


text \<open>
  \<open>handleToggleGroupType\<close> of the editor state, for the group at the root; the name is
  taken by the handler of the group hook, which toggles a child.
\<close>

definition handleToggleGroupTypeRoot :: "editor_state \<Rightarrow> error + editor_state" where
  "handleToggleGroupTypeRoot st =
     bindE (getCurrentGroupType (policy st)) (\<lambda>currentType.
     let newType = (if currentType = ''allOf'' then ''anyOf'' else ''allOf'') in
     bindE (getCurrentConditions (policy st)) (\<lambda>conditions.
     bindE (isRootNot (policy st)) (\<lambda>isNot.
     bindE (setRootIf (wrap_not isNot (JObj [(newType, conditions)])) (policy st)) (\<lambda>p.
     Inr (st\<lparr>policy := p\<rparr>)))))"

definition handleToggleNot :: "editor_state \<Rightarrow> error + editor_state" where
  "handleToggleNot st =
     bindE (getCurrentGroupType (policy st)) (\<lambda>type.
     bindE (getCurrentConditions (policy st)) (\<lambda>conditions.
     bindE (isRootNot (policy st)) (\<lambda>isNot.
     bindE (setRootIf (wrap_not (\<not> isNot) (JObj [(type, conditions)])) (policy st)) (\<lambda>p.
     Inr (st\<lparr>policy := p\<rparr>)))))"




section \<open>Edits of the policy, one after the other\<close>







section \<open>The shapes of well-formed conditions\<close>

text \<open>
  A nested group is an object with the one property \<open>allOf\<close> or \<open>anyOf\<close>, an array of
  children; negated, it is the one property \<open>not\<close> around that.
\<close>

definition nestedGroup :: "bool \<Rightarrow> string \<Rightarrow> jsval list \<Rightarrow> jsval" where
  "nestedGroup negated kind children = wrap_not negated (JObj [(kind, JArr children)])"

definition otherKind :: "string \<Rightarrow> string" where
  "otherKind kind = (if kind = ''allOf'' then ''anyOf'' else ''allOf'')"

definition is_kind :: "string \<Rightarrow> bool" where
  "is_kind k = (k = ''allOf'' \<or> k = ''anyOf'')"

text \<open>
  A simple condition has a \<open>field\<close> and is neither a count nor a negation. A count
  condition is the count body followed by one comparison, \<open>greater\<close>, \<open>less\<close> or
  \<open>equals\<close>, as the editor builds it.
\<close>

fun is_simple :: "jsval \<Rightarrow> bool" where
  "is_simple (JObj kvs) =
     (''field'' \<in> set (map fst kvs) \<and> ''count'' \<notin> set (map fst kvs) \<and> ''not'' \<notin> set (map fst kvs))"
| "is_simple v = False"

fun is_count :: "jsval \<Rightarrow> bool" where
  "is_count (JObj [(k1, body), (k2, v)]) =
     (k1 = ''count'' \<and> (k2 = ''greater'' \<or> k2 = ''less'' \<or> k2 = ''equals''))"
| "is_count v = False"

fun is_group :: "jsval \<Rightarrow> bool" where
  "is_group (JObj [(k, JArr cs)]) = is_kind k"
| "is_group v = False"

definition is_plain :: "jsval \<Rightarrow> bool" where
  "is_plain c = (is_simple c \<or> is_count c \<or> is_group c)"

text \<open>The inner condition of a negation, \<open>None\<close> for a condition that is not one.\<close>

fun negated_inner :: "jsval \<Rightarrow> jsval option" where
  "negated_inner (JObj [(k, inner)]) = (if k = ''not'' then Some inner else None)"
| "negated_inner v = None"

definition wf_condition :: "jsval \<Rightarrow> bool" where
  "wf_condition c = (case negated_inner c of Some inner \<Rightarrow> is_plain inner | None \<Rightarrow> is_plain c)"

text \<open>
  The document is an object whose \<open>properties\<close> and \<open>policyRule\<close> are objects, and
  the root of its condition tree is \<open>g\<close>.
\<close>

definition rootIs :: "jsval \<Rightarrow> jsval \<Rightarrow> bool" where
  "rootIs p g =
     (case p of
        JObj tops \<Rightarrow>
          (case lookup tops ''properties'' of
             JObj props \<Rightarrow>
               (case lookup props ''policyRule'' of
                  JObj rule \<Rightarrow> lookup rule ''if'' = g
                | _ \<Rightarrow> False)
           | _ \<Rightarrow> False)
      | _ \<Rightarrow> False)"




text \<open>The value a simple condition holds under its operator, as the hook reads it.\<close>

definition storedValue :: "jsval \<Rightarrow> error + jsval" where
  "storedValue condition =
     bindE (useCondition condition) (\<lambda>(isNot, simpleCondition, operator).
     get_prop simpleCondition operator)"

section \<open>Lemmas about the model\<close>

subsection \<open>Computing with objects\<close>

lemma bindE_Inr [simp]: "bindE (Inr x) f = f x"
  by (simp add: bindE_def)

lemma bindE_Inl [simp]: "bindE (Inl e) f = Inl e"
  by (simp add: bindE_def)

lemma lookup_set_prop: "lookup (set_prop k v kvs) k' = (if k' = k then v else lookup kvs k')"
  by (induction kvs) auto

lemma set_prop_twice: "set_prop k v (set_prop k v' kvs) = set_prop k v kvs"
  by (induction kvs) auto

lemma lookup_undefined: "k \<notin> set (map fst kvs) \<Longrightarrow> lookup kvs k = JUndefined"
  by (induction kvs) auto

lemma set_prop_lookup_id: "k \<in> set (map fst kvs) \<Longrightarrow> set_prop k (lookup kvs k) kvs = kvs"
  by (induction kvs) (auto simp: rev_image_eqI)

lemma set_prop_same: "lookup kvs k = v \<Longrightarrow> v \<noteq> JUndefined \<Longrightarrow> set_prop k v kvs = kvs"
  using lookup_undefined set_prop_lookup_id by blast

subsection \<open>Toggling the kind of a group\<close>

lemma rootIs_cases:
  "rootIs p g \<Longrightarrow>
     \<exists>tops props rule. p = JObj tops \<and> lookup tops ''properties'' = JObj props
        \<and> lookup props ''policyRule'' = JObj rule \<and> lookup rule ''if'' = g"
  by (auto simp: rootIs_def split: jsval.splits)

lemma rootIs_intro:
  "p = JObj tops \<Longrightarrow> lookup tops ''properties'' = JObj props
     \<Longrightarrow> lookup props ''policyRule'' = JObj rule \<Longrightarrow> lookup rule ''if'' = g \<Longrightarrow> rootIs p g"
  by (simp add: rootIs_def)

lemma nestedGroup_defined: "nestedGroup negated kind children \<noteq> JUndefined"
  by (simp add: nestedGroup_def wrap_not_def)

lemma setRootIf_object:
  assumes "lookup tops ''properties'' = JObj props" "lookup props ''policyRule'' = JObj rule"
  shows "setRootIf g (JObj tops) =
           Inr (JObj (set_prop ''properties''
                  (JObj (set_prop ''policyRule'' (JObj (set_prop ''if'' g rule)) props)) tops))"
  using assms by (simp add: setRootIf_def obj_with_def)

lemma root_reads:
  assumes "is_kind kind" "rootIs p (nestedGroup negated kind children)"
  shows "isRootNot p = Inr negated" "getCurrentGroupType p = Inr kind"
        "getCurrentConditions p = Inr (JArr children)"
proof -
  from rootIs_cases [OF assms(2)] obtain tops props rule where
    p: "p = JObj tops" "lookup tops ''properties'' = JObj props"
       "lookup props ''policyRule'' = JObj rule"
       "lookup rule ''if'' = nestedGroup negated kind children"
    by blast
  have r: "rootIf p = Inr (nestedGroup negated kind children)"
    using p by (simp add: rootIf_def)
  show n: "isRootNot p = Inr negated"
    using assms(1) r by (cases negated) (auto simp: isRootNot_def nestedGroup_def wrap_not_def is_kind_def)
  have g: "rootGroup p = Inr (JObj [(kind, JArr children)])"
    using n r by (cases negated) (auto simp: rootGroup_def nestedGroup_def wrap_not_def)
  show t: "getCurrentGroupType p = Inr kind"
    using g assms(1) by (auto simp: getCurrentGroupType_def is_kind_def)
  show "getCurrentConditions p = Inr (JArr children)"
    using g t by (simp add: getCurrentConditions_def js_or_def)
qed

lemma root_toggle_kind:
  assumes k: "is_kind kind" and r: "rootIs (policy st) (nestedGroup negated kind children)"
  shows "\<exists>st'. handleToggleGroupTypeRoot st = Inr st'
           \<and> rootIs (policy st') (nestedGroup negated (otherKind kind) children)
           \<and> handleToggleGroupTypeRoot st' = Inr st"
proof -
  from rootIs_cases [OF r] obtain tops props rule where
    p: "policy st = JObj tops" "lookup tops ''properties'' = JObj props"
       "lookup props ''policyRule'' = JObj rule"
       "lookup rule ''if'' = nestedGroup negated kind children"
    by blast
  let ?g' = "nestedGroup negated (otherKind kind) children"
  let ?rule' = "set_prop ''if'' ?g' rule"
  let ?props' = "set_prop ''policyRule'' (JObj ?rule') props"
  let ?tops' = "set_prop ''properties'' (JObj ?props') tops"
  let ?st' = "st\<lparr>policy := JObj ?tops'\<rparr>"
  have nt: "(if kind = ''allOf'' then ''anyOf'' else ''allOf'') = otherKind kind"
    by (simp add: otherKind_def)
  have 1: "handleToggleGroupTypeRoot st = Inr ?st'"
    using root_reads [OF k r] setRootIf_object [OF p(2,3)] p(1)
    by (simp add: handleToggleGroupTypeRoot_def nt nestedGroup_def Let_def)
  have r': "rootIs (policy ?st') ?g'"
    by (rule rootIs_intro [where tops = ?tops' and props = ?props' and rule = ?rule'])
       (simp_all add: lookup_set_prop)
  have k': "is_kind (otherKind kind)"
    by (simp add: is_kind_def otherKind_def)
  have twice: "otherKind (otherKind kind) = kind"
    using k by (auto simp: is_kind_def otherKind_def)
  have tops: "set_prop ''properties'' (JObj props) tops = tops"
    using p(2) by (intro set_prop_same) simp_all
  have props: "set_prop ''policyRule'' (JObj rule) props = props"
    using p(3) by (intro set_prop_same) simp_all
  have rule: "set_prop ''if'' (nestedGroup negated kind children) rule = rule"
    using p(4) nestedGroup_defined by (intro set_prop_same) simp_all
  have whole: "JObj (set_prop ''properties''
                  (JObj (set_prop ''policyRule''
                     (JObj (set_prop ''if'' (nestedGroup negated kind children) rule)) props)) tops)
               = policy st"
    using tops props rule p(1) by simp
  have 2: "handleToggleGroupTypeRoot ?st' = Inr st"
    using root_reads [OF k' r']
          setRootIf_object [of ?tops' ?props' ?rule' "nestedGroup negated kind children"]
    by (simp add: handleToggleGroupTypeRoot_def twice Let_def otherKind_def [symmetric]
                  nestedGroup_def [symmetric] lookup_set_prop set_prop_twice whole)
  from 1 r' 2 show ?thesis by blast
qed

lemma child_toggle_kind:
  assumes k: "is_kind kind" and i: "idx < length conditions"
    and c: "conditions ! idx = nestedGroup negated kind children"
  shows "handleToggleGroupType conditions idx =
           Inr (Some (conditions[idx := nestedGroup negated (otherKind kind) children]))"
  using assms
  by (cases negated)
     (auto simp: handleToggleGroupType_def element_at_def isNestedCondition_def nestedGroup_def
                 wrap_not_def is_kind_def otherKind_def js_or_def)

subsection \<open>Toggling negation\<close>

lemma root_toggle_not:
  assumes k: "is_kind kind" and r: "rootIs (policy st) (nestedGroup negated kind children)"
  shows "\<exists>st'. handleToggleNot st = Inr st'
           \<and> rootIs (policy st') (nestedGroup (\<not> negated) kind children)
           \<and> handleToggleNot st' = Inr st"
proof -
  from rootIs_cases [OF r] obtain tops props rule where
    p: "policy st = JObj tops" "lookup tops ''properties'' = JObj props"
       "lookup props ''policyRule'' = JObj rule"
       "lookup rule ''if'' = nestedGroup negated kind children"
    by blast
  let ?g' = "nestedGroup (\<not> negated) kind children"
  let ?rule' = "set_prop ''if'' ?g' rule"
  let ?props' = "set_prop ''policyRule'' (JObj ?rule') props"
  let ?tops' = "set_prop ''properties'' (JObj ?props') tops"
  let ?st' = "st\<lparr>policy := JObj ?tops'\<rparr>"
  have 1: "handleToggleNot st = Inr ?st'"
    using root_reads [OF k r] setRootIf_object [OF p(2,3)] p(1)
    by (simp add: handleToggleNot_def nestedGroup_def)
  have r': "rootIs (policy ?st') ?g'"
    by (rule rootIs_intro [where tops = ?tops' and props = ?props' and rule = ?rule'])
       (simp_all add: lookup_set_prop)
  have tops: "set_prop ''properties'' (JObj props) tops = tops"
    using p(2) by (intro set_prop_same) simp_all
  have props: "set_prop ''policyRule'' (JObj rule) props = props"
    using p(3) by (intro set_prop_same) simp_all
  have rule: "set_prop ''if'' (nestedGroup negated kind children) rule = rule"
    using p(4) nestedGroup_defined by (intro set_prop_same) simp_all
  have whole: "JObj (set_prop ''properties''
                  (JObj (set_prop ''policyRule''
                     (JObj (set_prop ''if'' (nestedGroup negated kind children) rule)) props)) tops)
               = policy st"
    using tops props rule p(1) by simp
  have 2: "handleToggleNot ?st' = Inr st"
    using root_reads [OF k r']
          setRootIf_object [of ?tops' ?props' ?rule' "nestedGroup negated kind children"]
    by (simp add: handleToggleNot_def nestedGroup_def [symmetric] lookup_set_prop
                  set_prop_twice whole)
  from 1 r' 2 show ?thesis by blast
qed

lemma toggle_simple:
  assumes "is_simple s"
  shows "toggleNegation s = Inr (Some (JObj [(''not'', s)]))"
    and "toggleNegation (JObj [(''not'', s)]) = Inr (Some s)"
proof -
  from assms obtain kvs where s: "s = JObj kvs" "''field'' \<in> set (map fst kvs)"
      "''count'' \<notin> set (map fst kvs)" "''not'' \<notin> set (map fst kvs)"
    by (cases s) auto
  show "toggleNegation s = Inr (Some (JObj [(''not'', s)]))"
    using s by (simp add: toggleNegation_def isSimpleCondition_def useCondition_def
                          handleNotToggle_def)
  show "toggleNegation (JObj [(''not'', s)]) = Inr (Some s)"
    using s by (simp add: toggleNegation_def isSimpleCondition_def useCondition_def
                          handleNotToggle_def)
qed

lemma toggle_count:
  assumes "is_count c"
  shows "toggleNegation c = Inr (Some (JObj [(''not'', c)]))"
    and "toggleNegation (JObj [(''not'', c)]) = Inr (Some c)"
proof -
  from assms obtain body k v where c: "c = JObj [(''count'', body), (k, v)]"
      "k = ''greater'' \<or> k = ''less'' \<or> k = ''equals''"
    by (auto elim!: is_count.elims)
  show "toggleNegation c = Inr (Some (JObj [(''not'', c)]))"
    using c by (auto simp: toggleNegation_def isSimpleCondition_def isCountCondition_def
                           handleToggleCountNot_def getCurrentOperator_def getCurrentValue_def
                           first_key_or_def)
  show "toggleNegation (JObj [(''not'', c)]) = Inr (Some c)"
    using c by (auto simp: toggleNegation_def isSimpleCondition_def isCountCondition_def
                           handleToggleCountNot_def getCurrentOperator_def getCurrentValue_def
                           first_key_or_def)
qed

lemma toggle_count_reordered:
  assumes "k = ''greater'' \<or> k = ''less'' \<or> k = ''equals''"
  shows "toggleNegationTwice (JObj [(k, v), (''count'', body)]) =
           Inr (Some (JObj [(''count'', body), (k, v)]))"
    and "toggleNegationTwice (JObj [(''not'', JObj [(k, v), (''count'', body)])]) =
           Inr (Some (JObj [(''not'', JObj [(''count'', body), (k, v)])]))"
proof -
  have c: "is_count (JObj [(''count'', body), (k, v)])"
    using assms by simp
  have 1: "toggleNegation (JObj [(k, v), (''count'', body)]) =
             Inr (Some (JObj [(''not'', JObj [(''count'', body), (k, v)])]))"
    using assms
    by (auto simp: toggleNegation_def isSimpleCondition_def isCountCondition_def
                   handleToggleCountNot_def getCurrentOperator_def getCurrentValue_def
                   first_key_or_def)
  have 2: "toggleNegation (JObj [(''not'', JObj [(k, v), (''count'', body)])]) =
             Inr (Some (JObj [(''count'', body), (k, v)]))"
    using assms
    by (auto simp: toggleNegation_def isSimpleCondition_def isCountCondition_def
                   handleToggleCountNot_def getCurrentOperator_def getCurrentValue_def
                   first_key_or_def)
  show "toggleNegationTwice (JObj [(k, v), (''count'', body)]) =
           Inr (Some (JObj [(''count'', body), (k, v)]))"
    using 1 toggle_count(2) [OF c] by (simp add: toggleNegationTwice_def)
  show "toggleNegationTwice (JObj [(''not'', JObj [(k, v), (''count'', body)])]) =
           Inr (Some (JObj [(''not'', JObj [(''count'', body), (k, v)])]))"
    using 2 toggle_count(1) [OF c] by (simp add: toggleNegationTwice_def)
qed

lemma toggle_group:
  assumes "is_group g"
  shows "toggleNegation g = Inr (Some (JObj [(''not'', g)]))"
    and "toggleNegation (JObj [(''not'', g)]) = Inr (Some g)"
proof -
  from assms obtain k cs where g: "g = JObj [(k, JArr cs)]" "k = ''allOf'' \<or> k = ''anyOf''"
    by (auto elim!: is_group.elims simp: is_kind_def)
  show "toggleNegation g = Inr (Some (JObj [(''not'', g)]))"
    using g by (auto simp: toggleNegation_def isSimpleCondition_def isCountCondition_def
                           isNestedCondition_def nestedToggleNot_def js_or_def)
  show "toggleNegation (JObj [(''not'', g)]) = Inr (Some g)"
    using g by (auto simp: toggleNegation_def isSimpleCondition_def isCountCondition_def
                           isNestedCondition_def nestedToggleNot_def js_or_def)
qed

lemma toggle_plain:
  assumes "is_plain c"
  shows "toggleNegation c = Inr (Some (JObj [(''not'', c)]))"
    and "toggleNegation (JObj [(''not'', c)]) = Inr (Some c)"
  using assms toggle_simple toggle_count toggle_group by (auto simp: is_plain_def)

lemma negated_inner_Some: "negated_inner c = Some inner \<Longrightarrow> c = JObj [(''not'', inner)]"
  by (auto elim!: negated_inner.elims split: if_splits)

lemma plain_not_negated: "is_plain c \<Longrightarrow> negated_inner c = None"
proof (cases "negated_inner c")
  case None
  then show ?thesis .
next
  case (Some inner)
  assume "is_plain c"
  moreover have "c = JObj [(''not'', inner)]" using Some by (rule negated_inner_Some)
  ultimately show ?thesis by (cases inner) (simp_all add: is_plain_def is_kind_def)
qed

lemma toggle_wf:
  assumes "wf_condition c"
  shows "toggleNegation c =
           Inr (Some (case negated_inner c of Some inner \<Rightarrow> inner | None \<Rightarrow> JObj [(''not'', c)]))"
    and "toggleNegationTwice c = Inr (Some c)"
proof -
  show "toggleNegation c =
           Inr (Some (case negated_inner c of Some inner \<Rightarrow> inner | None \<Rightarrow> JObj [(''not'', c)]))"
    using assms toggle_plain negated_inner_Some
    by (auto simp: wf_condition_def split: option.splits)
  show "toggleNegationTwice c = Inr (Some c)"
  proof (cases "negated_inner c")
    case None
    with assms have "is_plain c" by (simp add: wf_condition_def)
    then show ?thesis by (simp add: toggleNegationTwice_def toggle_plain)
  next
    case (Some inner)
    with assms have "is_plain inner" by (simp add: wf_condition_def)
    moreover have "c = JObj [(''not'', inner)]" using Some by (rule negated_inner_Some)
    ultimately show ?thesis by (simp add: toggleNegationTwice_def toggle_plain)
  qed
qed

subsection \<open>The value of a simple condition\<close>

lemma keys_set_prop:
  "map fst (set_prop k x kvs) = (if k \<in> set (map fst kvs) then map fst kvs else map fst kvs @ [k])"
  by (induction kvs) (auto simp: rev_image_eqI)

lemma find_snoc:
  "List.find P (xs @ [k]) =
     (case List.find P xs of Some y \<Rightarrow> Some y | None \<Rightarrow> if P k then Some k else None)"
  by (induction xs) auto

lemma find_in_set: "List.find P xs = Some k \<Longrightarrow> k \<in> set xs"
  by (induction xs) (auto split: if_splits)

lemma operator_after_write:
  assumes "op = first_key_or ''field'' ''equals'' (map fst kvs)"
  shows "first_key_or ''field'' ''equals'' (map fst (set_prop op x kvs)) = op"
proof (cases "List.find (\<lambda>k. k \<noteq> ''field'') (map fst kvs)")
  case None
  then have op: "op = ''equals''" using assms by (simp add: first_key_or_def)
  show ?thesis
    using None by (simp add: op keys_set_prop first_key_or_def find_snoc)
next
  case (Some k)
  note found = Some
  show ?thesis
  proof (cases "k = []")
    case True
    then have op: "op = ''equals''" using assms found by (simp add: first_key_or_def)
    show ?thesis
      using found True by (simp add: op keys_set_prop first_key_or_def find_snoc)
  next
    case False
    then have op: "op = k" using assms found by (simp add: first_key_or_def)
    have "k \<in> set (map fst kvs)" using found by (rule find_in_set)
    then show ?thesis
      using found False by (simp add: op keys_set_prop first_key_or_def)
  qed
qed

lemma useCondition_simple:
  assumes "is_simple s"
  shows "useCondition (wrap_not negated s) =
           Inr (negated, s, first_key_or ''field'' ''equals'' (map fst (own_props s)))"
proof -
  from assms obtain kvs where s: "s = JObj kvs" "''not'' \<notin> set (map fst kvs)"
    by (cases s) auto
  then show ?thesis
    by (cases negated) (simp_all add: useCondition_def wrap_not_def)
qed

lemma simple_after_write:
  assumes "is_simple (JObj kvs)" "op \<noteq> ''not''" "op \<noteq> ''count''"
  shows "is_simple (JObj (set_prop op x kvs))"
  using assms by (auto simp: keys_set_prop)

lemma operator_not_reserved:
  assumes "is_simple (JObj kvs)" "op = first_key_or ''field'' ''equals'' (map fst kvs)"
  shows "op \<noteq> ''not''" "op \<noteq> ''count''"
proof -
  have "op = ''equals'' \<or> op \<in> set (map fst kvs)"
    using assms(2) find_in_set [of "\<lambda>k. k \<noteq> ''field''" "map fst kvs"]
    by (auto simp: first_key_or_def split: option.splits if_splits)
  then show "op \<noteq> ''not''" "op \<noteq> ''count''"
    using assms(1) by auto
qed

lemma value_change_stored:
  assumes s: "is_simple s" and op: "op = first_key_or ''field'' ''equals'' (map fst (own_props s))"
  shows "\<exists>c'. handleValueChange parse text (wrap_not negated s) = Inr c'
           \<and> storedValue c' = Inr (processValue parse op text)"
proof -
  from s obtain kvs where kvs: "s = JObj kvs" by (cases s) auto
  let ?x = "processValue parse op text"
  let ?s' = "JObj (set_prop op ?x kvs)"
  have op': "op = first_key_or ''field'' ''equals'' (map fst kvs)"
    using op kvs by simp
  have 1: "handleValueChange parse text (wrap_not negated s) = Inr (wrap_not negated ?s')"
    using useCondition_simple [OF s, of negated] op kvs
    by (simp add: handleValueChange_def obj_with_def)
  have "is_simple ?s'"
    using s kvs operator_not_reserved [OF _ op'] by (intro simple_after_write) simp_all
  from useCondition_simple [OF this, of negated]
  have 2: "storedValue (wrap_not negated ?s') = Inr ?x"
    using operator_after_write [OF op', of ?x]
    by (simp add: storedValue_def lookup_set_prop)
  from 1 2 show ?thesis by blast
qed

lemma operator_change_moves_value:
  assumes "op \<noteq> ''field''" "op \<noteq> []" "op \<noteq> ''not''" "op \<noteq> ''count''" "newOp \<noteq> ''field''"
  shows "handleOperatorChange newOp (wrap_not negated (JObj [(''field'', f), (op, v)])) =
           Inr (wrap_not negated (JObj [(''field'', f), (newOp, v)]))"
proof -
  have "is_simple (JObj [(''field'', f), (op, v)])"
    using assms by auto
  from useCondition_simple [OF this, of negated] show ?thesis
    using assms by (simp add: handleOperatorChange_def first_key_or_def del_prop_def)
qed

subsection \<open>The effect parameter under the edits\<close>



























section \<open>The claims\<close>

text \<open>
  C1. Toggling negation twice gives the condition back, for every well-formed condition:
  a simple condition, a nested allOf or anyOf group or a count condition, negated or
  not. One toggle wraps a condition that is not negated in \<open>not\<close> and unwraps a negated
  one to exactly its inner condition. The same holds of the toggle at the root of the
  tree, which leaves the rest of the document as it was. A count condition is taken with
  its count body enumerated first, as the editor builds it; one whose comparison comes
  first is given back with the same two properties, the count body first.
\<close>

theorem negation_involution:
  "(wf_condition c \<longrightarrow>
      toggleNegation c =
        Inr (Some (case negated_inner c of Some inner \<Rightarrow> inner | None \<Rightarrow> JObj [(''not'', c)]))
      \<and> toggleNegationTwice c = Inr (Some c))
   \<and> (is_kind kind \<and> rootIs (policy st) (nestedGroup negated kind children) \<longrightarrow>
        (\<exists>st'. handleToggleNot st = Inr st'
           \<and> rootIs (policy st') (nestedGroup (\<not> negated) kind children)
           \<and> handleToggleNot st' = Inr st))
   \<and> (k = ''greater'' \<or> k = ''less'' \<or> k = ''equals'' \<longrightarrow>
        toggleNegationTwice (JObj [(k, v), (''count'', body)]) =
          Inr (Some (JObj [(''count'', body), (k, v)]))
        \<and> toggleNegationTwice (JObj [(''not'', JObj [(k, v), (''count'', body)])]) =
          Inr (Some (JObj [(''not'', JObj [(''count'', body), (k, v)])])))"
  using toggle_wf [of c] root_toggle_not [of kind st negated children]
        toggle_count_reordered [of k v body]
  by blast

theorem negation_involution_witness:
  "wf_condition (JObj [(''field'', JStr ''location''), (''in'', JArr [JStr ''westus''])])
   \<and> toggleNegation (JObj [(''field'', JStr ''location''), (''in'', JArr [JStr ''westus''])])
       = Inr (Some (JObj [(''not'',
            JObj [(''field'', JStr ''location''), (''in'', JArr [JStr ''westus''])])]))
   \<and> toggleNegationTwice (JObj [(''field'', JStr ''location''), (''in'', JArr [JStr ''westus''])])
       = Inr (Some (JObj [(''field'', JStr ''location''), (''in'', JArr [JStr ''westus''])]))
   \<and> wf_condition (JObj [(''not'', JObj [(''count'', JObj [(''field'', JStr ''f'')]), (''greater'', JNum 5)])])
   \<and> toggleNegation (JObj [(''not'', JObj [(''count'', JObj [(''field'', JStr ''f'')]), (''greater'', JNum 5)])])
       = Inr (Some (JObj [(''count'', JObj [(''field'', JStr ''f'')]), (''greater'', JNum 5)]))
   \<and> toggleNegationTwice (JObj [(''not'', JObj [(''count'', JObj [(''field'', JStr ''f'')]), (''greater'', JNum 5)])])
       = Inr (Some (JObj [(''not'', JObj [(''count'', JObj [(''field'', JStr ''f'')]), (''greater'', JNum 5)])]))
   \<and> is_kind ''allOf'' \<and> rootIs (policy initial_state) (nestedGroup False ''allOf'' [])
   \<and> (\<exists>st'. handleToggleNot initial_state = Inr st'
          \<and> rootIs (policy st') (nestedGroup True ''allOf'' [])
          \<and> handleToggleNot st' = Inr initial_state)"
proof -
  have k: "is_kind ''allOf''"
    by (simp add: is_kind_def)
  have r: "rootIs (policy initial_state) (nestedGroup False ''allOf'' [])"
    by (simp add: rootIs_def initial_state_def initialPolicyTemplate_def nestedGroup_def wrap_not_def)
  have w1: "wf_condition (JObj [(''field'', JStr ''location''), (''in'', JArr [JStr ''westus''])])"
    by (simp add: wf_condition_def is_plain_def)
  have w2: "wf_condition (JObj [(''not'', JObj [(''count'', JObj [(''field'', JStr ''f'')]), (''greater'', JNum 5)])])"
    by (simp add: wf_condition_def is_plain_def)
  show ?thesis
    using negation_involution
            [of "JObj [(''field'', JStr ''location''), (''in'', JArr [JStr ''westus''])]"
                "''allOf''" initial_state False "[]"]
          negation_involution
            [of "JObj [(''not'', JObj [(''count'', JObj [(''field'', JStr ''f'')]), (''greater'', JNum 5)])]"
                "''allOf''" initial_state False "[]"]
          k r w1 w2
    by simp
qed

text \<open>
  C2. Removing the only child of a group with one child gives a group with one child, the
  fresh empty simple condition with field "", operator equals and value ""; the result
  never has zero children.
\<close>

theorem remove_sole_child:
  "handleRemoveCondition [c] 0 = [JObj [(''field'', JStr ''''), (''equals'', JStr '''')]]
   \<and> length (handleRemoveCondition [c] 0) = 1
   \<and> handleRemoveCondition [c] 0 \<noteq> []"
  by (simp add: handleRemoveCondition_def emptySimple_def)

text \<open>
  C3. Adding a simple condition puts the new one in front of the existing children, adding
  a nested group puts the new one behind them; the existing children stay as they were,
  in their order.
\<close>

theorem add_children_order:
  "handleAddCondition cs = emptySimple # cs
   \<and> (\<exists>newGroup. handleAddNestedGroup cs isNot = cs @ [newGroup])
   \<and> handleAddNestedGroup cs False = cs @ [JObj [(''anyOf'', JArr [])]]
   \<and> handleAddNestedGroup cs True = cs @ [JObj [(''not'', JObj [(''anyOf'', JArr [])])]]
   \<and> tl (handleAddCondition cs) = cs
   \<and> butlast (handleAddNestedGroup cs isNot) = cs"
  by (simp add: handleAddCondition_def handleAddNestedGroup_def Let_def)

text \<open>
  C4. Toggling the kind of a nested group flips allOf to anyOf and anyOf to allOf and
  leaves the children and the \<open>not\<close> wrapper as they were; toggling twice gives the
  group back. This holds of a group that is a child of another group (the other children
  stay as they are) and of the group at the root of the tree.
\<close>

theorem group_kind_toggle:
  "otherKind ''allOf'' = ''anyOf'' \<and> otherKind ''anyOf'' = ''allOf''
   \<and> (is_kind kind \<and> idx < length conditions
        \<and> conditions ! idx = nestedGroup negated kind children \<longrightarrow>
        handleToggleGroupType conditions idx =
          Inr (Some (conditions[idx := nestedGroup negated (otherKind kind) children]))
        \<and> handleToggleGroupType (conditions[idx := nestedGroup negated (otherKind kind) children]) idx =
          Inr (Some conditions))
   \<and> (is_kind kind \<and> rootIs (policy st) (nestedGroup negated kind children) \<longrightarrow>
        (\<exists>st'. handleToggleGroupTypeRoot st = Inr st'
           \<and> rootIs (policy st') (nestedGroup negated (otherKind kind) children)
           \<and> handleToggleGroupTypeRoot st' = Inr st))"
proof -
  have flip: "otherKind ''allOf'' = ''anyOf'' \<and> otherKind ''anyOf'' = ''allOf''"
    by (simp add: otherKind_def)
  have child: "handleToggleGroupType conditions idx =
          Inr (Some (conditions[idx := nestedGroup negated (otherKind kind) children]))
        \<and> handleToggleGroupType (conditions[idx := nestedGroup negated (otherKind kind) children]) idx =
          Inr (Some conditions)"
    if k: "is_kind kind" and i: "idx < length conditions"
      and c: "conditions ! idx = nestedGroup negated kind children"
  proof -
    let ?cs' = "conditions[idx := nestedGroup negated (otherKind kind) children]"
    have k': "is_kind (otherKind kind)"
      by (simp add: is_kind_def otherKind_def)
    have twice: "otherKind (otherKind kind) = kind"
      using k by (auto simp: is_kind_def otherKind_def)
    have "handleToggleGroupType ?cs' idx =
            Inr (Some (?cs'[idx := nestedGroup negated (otherKind (otherKind kind)) children]))"
      using i by (intro child_toggle_kind [OF k']) simp_all
    then have "handleToggleGroupType ?cs' idx = Inr (Some conditions)"
      using c [symmetric] by (simp add: twice)
    then show ?thesis
      using child_toggle_kind [OF k i c] by simp
  qed
  show ?thesis
    using flip child root_toggle_kind [of kind st negated children] by blast
qed

theorem group_kind_toggle_witness:
  "is_kind ''anyOf'' \<and> (1::nat) < length [emptySimple, JObj [(''not'', JObj [(''anyOf'', JArr [emptySimple])])]]
   \<and> [emptySimple, JObj [(''not'', JObj [(''anyOf'', JArr [emptySimple])])]] ! 1
       = nestedGroup True ''anyOf'' [emptySimple]
   \<and> handleToggleGroupType [emptySimple, JObj [(''not'', JObj [(''anyOf'', JArr [emptySimple])])]] 1
       = Inr (Some [emptySimple, JObj [(''not'', JObj [(''allOf'', JArr [emptySimple])])]])
   \<and> handleToggleGroupType [emptySimple, JObj [(''not'', JObj [(''allOf'', JArr [emptySimple])])]] 1
       = Inr (Some [emptySimple, JObj [(''not'', JObj [(''anyOf'', JArr [emptySimple])])]])
   \<and> is_kind ''allOf'' \<and> rootIs (policy initial_state) (nestedGroup False ''allOf'' [])
   \<and> (\<exists>st'. handleToggleGroupTypeRoot initial_state = Inr st'
          \<and> rootIs (policy st') (nestedGroup False ''anyOf'' [])
          \<and> handleToggleGroupTypeRoot st' = Inr initial_state)"
proof -
  have r: "rootIs (policy initial_state) (nestedGroup False ''allOf'' [])"
    by (simp add: rootIs_def initial_state_def initialPolicyTemplate_def nestedGroup_def wrap_not_def)
  show ?thesis
    using group_kind_toggle
            [of "''anyOf''" 1 "[emptySimple, JObj [(''not'', JObj [(''anyOf'', JArr [emptySimple])])]]"
                True "[emptySimple]" initial_state]
          group_kind_toggle
            [of "''allOf''" 0 "[]" False "[]" initial_state]
          r
    by (simp add: is_kind_def nestedGroup_def wrap_not_def otherKind_def)
qed

text \<open>
  C5, as the code has it. Toggling the kind of a child that is not a nested group, a
  simple or count condition, negated or not, does not throw: the handler returns without
  calling \<open>onUpdate\<close>, and the children stay as they are. With an index past the last
  child it throws a TypeError.
\<close>

theorem toggle_kind_other_shapes:
  "(idx < length conditions \<and> conditions ! idx = JObj kvs
      \<and> ''not'' \<notin> set (map fst kvs) \<and> ''allOf'' \<notin> set (map fst kvs) \<and> ''anyOf'' \<notin> set (map fst kvs)
    \<longrightarrow> handleToggleGroupType conditions idx = Inr None)
   \<and> (idx < length conditions \<and> conditions ! idx = JObj [(''not'', JObj kvs)]
      \<and> ''allOf'' \<notin> set (map fst kvs) \<and> ''anyOf'' \<notin> set (map fst kvs)
    \<longrightarrow> handleToggleGroupType conditions idx = Inr None)
   \<and> (length conditions \<le> idx \<longrightarrow> handleToggleGroupType conditions idx = Inl TypeError)"
  by (simp add: handleToggleGroupType_def element_at_def isNestedCondition_def)

theorem toggle_kind_other_shapes_witness:
  "handleToggleGroupType [emptySimple, JObj [(''not'', emptySimple)]] 0 = Inr None
   \<and> handleToggleGroupType [emptySimple, JObj [(''not'', emptySimple)]] 1 = Inr None
   \<and> handleToggleGroupType [emptySimple, JObj [(''not'', emptySimple)]] 2 = Inl TypeError"
  using toggle_kind_other_shapes
          [of 0 "[emptySimple, JObj [(''not'', emptySimple)]]"
              "[(''field'', JStr []), (''equals'', JStr [])]"]
        toggle_kind_other_shapes
          [of 1 "[emptySimple, JObj [(''not'', emptySimple)]]"
              "[(''field'', JStr []), (''equals'', JStr [])]"]
        toggle_kind_other_shapes
          [of 2 "[emptySimple, JObj [(''not'', emptySimple)]]"
              "[(''field'', JStr []), (''equals'', JStr [])]"]
  by (simp add: emptySimple_def)

text \<open>
  C5, as the claim states it, fails: on the simple condition
  \<open>{field: "type", equals: "vm"}\<close> the handler does not throw, it returns having done
  nothing.
\<close>

theorem toggle_kind_wrong_shape_counterexample:
  "handleToggleGroupType [JObj [(''field'', JStr ''type''), (''equals'', JStr ''vm'')]] 0 = Inr None
   \<and> handleToggleGroupType [JObj [(''field'', JStr ''type''), (''equals'', JStr ''vm'')]] 0 \<noteq> Inl TypeError"
  by (simp add: handleToggleGroupType_def element_at_def isNestedCondition_def)

text \<open>
  C7. A text that does not parse as JSON leaves the editor's state, and so the policy
  document, exactly as it was before the call.
\<close>

theorem editor_change_parse_failure:
  "parse text = Inl e \<Longrightarrow> handleEditorChange parse (Some text) st = st"
  by (simp add: handleEditorChange_def)

theorem editor_change_parse_failure_witness:
  "(\<lambda>t. Inl SyntaxError :: error + jsval) ''{ not json'' = Inl SyntaxError
   \<and> handleEditorChange (\<lambda>t. Inl SyntaxError) (Some ''{ not json'') initial_state = initial_state"
  using editor_change_parse_failure [of "\<lambda>t. Inl SyntaxError" "''{ not json''" SyntaxError initial_state]
  by simp




text \<open>
  C9, as the code has it. \<open>handleValueChange\<close> stores, under the operator of the simple
  condition: when the operator is \<open>in\<close> or \<open>notIn\<close> and the text parses as a JSON array,
  that array; in every other case the text itself, a plain string. \<open>handleOperatorChange\<close>
  moves the value the condition holds to the new operator as it is.
\<close>

theorem value_change_stores:
  "(is_simple s \<and> op = first_key_or ''field'' ''equals'' (map fst (own_props s)) \<longrightarrow>
      (\<exists>c'. handleValueChange parse text (wrap_not negated s) = Inr c'
         \<and> (\<forall>xs. (op = ''in'' \<or> op = ''notIn'') \<and> parse text = Inr (JArr xs)
                \<longrightarrow> storedValue c' = Inr (JArr xs))
         \<and> (\<not> ((op = ''in'' \<or> op = ''notIn'') \<and> (\<exists>xs. parse text = Inr (JArr xs)))
                \<longrightarrow> storedValue c' = Inr (JStr text))))
   \<and> (old \<noteq> ''field'' \<and> old \<noteq> [] \<and> old \<noteq> ''not'' \<and> old \<noteq> ''count'' \<and> new \<noteq> ''field'' \<longrightarrow>
        handleOperatorChange new (wrap_not negated (JObj [(''field'', f), (old, v)])) =
          Inr (wrap_not negated (JObj [(''field'', f), (new, v)])))"
proof -
  have arr: "processValue parse op text = JArr xs"
    if "op = ''in'' \<or> op = ''notIn''" "parse text = Inr (JArr xs)" for xs
    using that by (auto simp: processValue_def)
  have str: "processValue parse op text = JStr text"
    if "\<not> ((op = ''in'' \<or> op = ''notIn'') \<and> (\<exists>xs. parse text = Inr (JArr xs)))"
    using that by (auto simp: processValue_def split: sum.splits jsval.splits)
  have "\<exists>c'. handleValueChange parse text (wrap_not negated s) = Inr c'
         \<and> (\<forall>xs. (op = ''in'' \<or> op = ''notIn'') \<and> parse text = Inr (JArr xs)
                \<longrightarrow> storedValue c' = Inr (JArr xs))
         \<and> (\<not> ((op = ''in'' \<or> op = ''notIn'') \<and> (\<exists>xs. parse text = Inr (JArr xs)))
                \<longrightarrow> storedValue c' = Inr (JStr text))"
    if "is_simple s" "op = first_key_or ''field'' ''equals'' (map fst (own_props s))"
  proof -
    from value_change_stored [OF that, of parse "text" negated] obtain c' where
      c': "handleValueChange parse text (wrap_not negated s) = Inr c'"
          "storedValue c' = Inr (processValue parse op text)"
      by blast
    show ?thesis
      using c' arr str by (intro exI [of _ c']) auto
  qed
  then show ?thesis
    using operator_change_moves_value [of old new negated f v] by blast
qed

theorem value_change_stores_witness:
  "is_simple (JObj [(''field'', JStr ''location''), (''in'', JArr [])])
   \<and> (\<exists>c'. handleValueChange (\<lambda>t. if t = ''[]'' then Inr (JArr []) else Inl SyntaxError) ''westus''
              (JObj [(''field'', JStr ''location''), (''in'', JArr [])]) = Inr c'
          \<and> storedValue c' = Inr (JStr ''westus''))
   \<and> handleOperatorChange ''notIn'' (JObj [(''field'', JStr ''location''), (''in'', JArr [])])
       = Inr (JObj [(''field'', JStr ''location''), (''notIn'', JArr [])])"
  using value_change_stores
          [of "JObj [(''field'', JStr ''location''), (''in'', JArr [])]" "''in''"
              "\<lambda>t. if t = ''[]'' then Inr (JArr []) else Inl SyntaxError" "''westus''" False
              "''in''" "''notIn''" "JStr ''location''" "JArr []"]
  by (simp add: first_key_or_def wrap_not_def)

text \<open>
  C9, as the claim states it, fails: changing the operator of the fresh simple condition
  from \<open>equals\<close> to \<open>in\<close> stores the empty string, not an array, under \<open>in\<close>.
\<close>

theorem in_operator_holds_string_counterexample:
  "handleOperatorChange ''in'' (JObj [(''field'', JStr []), (''equals'', JStr [])])
     = Inr (JObj [(''field'', JStr []), (''in'', JStr [])])
   \<and> storedValue (JObj [(''field'', JStr []), (''in'', JStr [])]) = Inr (JStr [])"
  by (simp add: handleOperatorChange_def useCondition_def first_key_or_def del_prop_def
                wrap_not_def storedValue_def)

text \<open>
  C10. When the group has exactly one child, removal does not look at the index: whatever
  index is given, in range or not, the result is the one-element sequence holding the
  fresh empty simple condition.
\<close>

theorem remove_single_ignores_index:
  "length cs = 1 \<Longrightarrow> handleRemoveCondition cs i = [emptySimple]"
  by (simp add: handleRemoveCondition_def)

theorem remove_single_ignores_index_witness:
  "length [JObj [(''field'', JStr ''location''), (''equals'', JStr ''westus'')]] = 1
   \<and> handleRemoveCondition
        [JObj [(''field'', JStr ''location''), (''equals'', JStr ''westus'')]] (-7)
      = [emptySimple]
   \<and> handleRemoveCondition
        [JObj [(''field'', JStr ''location''), (''equals'', JStr ''westus'')]] 5
      = [emptySimple]"
  using remove_single_ignores_index
          [of "[JObj [(''field'', JStr ''location''), (''equals'', JStr ''westus'')]]" "-7"]
        remove_single_ignores_index
          [of "[JObj [(''field'', JStr ''location''), (''equals'', JStr ''westus'')]]" 5]
  by simp

end
